theory Spec2Isabelle
  imports Main
begin

section \<open>Python text and integers\<close>

text \<open>
  A Python \<open>str\<close> is represented by its UTF-8 encoding, one \<open>char\<close> per byte, so
  that a \<open>bytes\<close> value and the text it decodes to are the same list. Equality,
  \<open>startswith\<close> and slicing off a known prefix agree with Python's under that
  representation.
\<close>

datatype error = ValueError | UnicodeDecodeError | TypeError

definition cont :: "nat \<Rightarrow> bool" where
  "cont b = (128 \<le> b \<and> b \<le> 191)"

text \<open>
  Well-formed UTF-8 as \<open>bytes.decode()\<close> (codec utf-8, errors strict) accepts it:
  no overlong form, no surrogate, nothing above U+10FFFF, no truncated sequence.
\<close>

fun utf8_ok :: "nat list \<Rightarrow> bool" where
  "utf8_ok [] = True"
| "utf8_ok (b # bs) =
     (if b < 128 then utf8_ok bs
      else if 194 \<le> b \<and> b \<le> 223 then
        (case bs of c1 # r \<Rightarrow> cont c1 \<and> utf8_ok r | _ \<Rightarrow> False)
      else if 224 \<le> b \<and> b \<le> 239 then
        (case bs of c1 # c2 # r \<Rightarrow>
             cont c1 \<and> cont c2 \<and> (b = 224 \<longrightarrow> 160 \<le> c1) \<and> (b = 237 \<longrightarrow> c1 \<le> 159)
             \<and> utf8_ok r
         | _ \<Rightarrow> False)
      else if 240 \<le> b \<and> b \<le> 244 then
        (case bs of c1 # c2 # c3 # r \<Rightarrow>
             cont c1 \<and> cont c2 \<and> cont c3 \<and> (b = 240 \<longrightarrow> 144 \<le> c1)
             \<and> (b = 244 \<longrightarrow> c1 \<le> 143) \<and> utf8_ok r
         | _ \<Rightarrow> False)
      else False)"

definition decode :: "string \<Rightarrow> error + string" where
  "decode bs = (if utf8_ok (map of_char bs) then Inr bs else Inl UnicodeDecodeError)"

text \<open>
  The white space \<open>int()\<close> skips around an ASCII literal: tab, line feed, vertical
  tab, form feed, carriage return and space.
\<close>

definition is_space :: "char \<Rightarrow> bool" where
  "is_space c = ((of_char c :: nat) \<in> {9, 10, 11, 12, 13, 32})"

definition is_digit :: "char \<Rightarrow> bool" where
  "is_digit c = (48 \<le> (of_char c :: nat) \<and> (of_char c :: nat) \<le> 57)"

definition strip :: "string \<Rightarrow> string" where
  "strip s = rev (dropWhile is_space (rev (dropWhile is_space s)))"

text \<open>
  The digits of an integer literal given to \<open>int()\<close>: decimal digits, with single
  underscores allowed between two digits. \<open>prev\<close> tells whether the character before
  was a digit.
\<close>

fun int_body :: "bool \<Rightarrow> nat \<Rightarrow> string \<Rightarrow> nat option" where
  "int_body prev acc [] = (if prev then Some acc else None)"
| "int_body prev acc (c # cs) =
     (if is_digit c then int_body True (10 * acc + (of_char c - 48)) cs
      else if c = CHR ''_'' \<and> prev then int_body False acc cs
      else None)"

text \<open>
  \<open>int(value)\<close> on text, base 10: surrounding white space is dropped, one sign is
  allowed, anything else raises ValueError, as does a literal of more than 4300 digits
  (the interpreter's default limit). This is \<open>int()\<close> on ASCII text. On text with a
  character outside ASCII, Python first folds the decimal digits and the spaces of every
  script into ASCII; this model gives ValueError on any such text.
\<close>

definition py_int :: "string \<Rightarrow> error + int" where
  "py_int s =
     (case strip s of
        [] \<Rightarrow> Inl ValueError
      | c # cs \<Rightarrow>
          (let neg = (c = CHR ''-'');
               body = (if c = CHR ''-'' \<or> c = CHR ''+'' then cs else c # cs)
           in if 4300 < length (filter is_digit body) then Inl ValueError
              else (case int_body False 0 body of
                      None \<Rightarrow> Inl ValueError
                    | Some n \<Rightarrow> Inr (if neg then - int n else int n))))"

definition digit_char :: "nat \<Rightarrow> char" where
  "digit_char d = ''0123456789'' ! (d mod 10)"

fun nat_digits :: "nat \<Rightarrow> string" where
  "nat_digits n =
     (if n < 10 then [digit_char n]
      else nat_digits (n div 10) @ [digit_char (n mod 10)])"

declare nat_digits.simps [simp del]

text \<open>\<open>str(n)\<close> for an integer.\<close>

definition py_str :: "int \<Rightarrow> string" where
  "py_str i = (if i < 0 then CHR ''-'' # nat_digits (nat (- i)) else nat_digits (nat i))"

text \<open>\<open>s.startswith(p)\<close>.\<close>

definition startswith :: "string \<Rightarrow> string \<Rightarrow> bool" where
  "startswith s p = (take (length p) s = p)"

section \<open>Device state\<close>

definition API_HOST :: string where
  "API_HOST = ''app.ensy.no''"

definition API_PORT :: nat where
  "API_PORT = 8083"

definition MIN_TEMPERATURE :: int where
  "MIN_TEMPERATURE = 15"

definition MAX_TEMPERATURE :: int where
  "MAX_TEMPERATURE = 26"

datatype FanMode = LOW | MEDIUM | HIGH

text \<open>\<open>int(speed)\<close>: the value of an enum member.\<close>

fun FanMode_value :: "FanMode \<Rightarrow> int" where
  "FanMode_value LOW = 1"
| "FanMode_value MEDIUM = 2"
| "FanMode_value HIGH = 3"

text \<open>\<open>FanMode(n)\<close>: the member with that value; ValueError when there is none.\<close>

definition FanMode_of :: "int \<Rightarrow> error + FanMode" where
  "FanMode_of n =
     (if n = 1 then Inr LOW else if n = 2 then Inr MEDIUM else if n = 3 then Inr HIGH
      else Inl ValueError)"

datatype PresetMode = HOME | AWAY | BOOST

record EnsyState =
  is_heating :: "bool option"
  is_online :: bool
  fan_mode :: "FanMode option"
  preset_mode :: "PresetMode option"
  temperature_exhaust :: "int option"
  temperature_extract :: "int option"
  temperature_heater :: "int option"
  temperature_outside :: "int option"
  temperature_supply :: "int option"
  temperature_target :: "int option"

text \<open>\<open>EnsyState()\<close>: every field at its default.\<close>

definition EnsyState_default :: EnsyState where
  "EnsyState_default =
     \<lparr>is_heating = None, is_online = False, fan_mode = None, preset_mode = None,
      temperature_exhaust = None, temperature_extract = None, temperature_heater = None,
      temperature_outside = None, temperature_supply = None, temperature_target = None\<rparr>"

section \<open>The client\<close>

text \<open>
  A message of the transport. Outbound, the four fields are the arguments of the
  transport's \<open>publish\<close>, the topic being text. Inbound, the transport keeps the topic
  as bytes and decodes it each time \<open>msg.topic\<close> is read: the field then holds what
  that read gives, the text or the exception raised when the bytes are not UTF-8. The
  inbound \<open>payload\<close> is bytes.
\<close>

record 't MQTTMessage =
  topic :: 't
  payload :: string
  qos :: nat
  retain :: bool

type_synonym published = "string MQTTMessage"

type_synonym inbound = "(error + string) MQTTMessage"

text \<open>
  An observer is a callable. It is applied to a list of positional arguments and either
  returns (\<open>None\<close>) or raises. What it does outside the client is not modelled; every
  application is recorded in \<open>observer_calls\<close>, with the observer's position in
  \<open>on_state_updated\<close>.
\<close>

datatype arg = AStr string | AState EnsyState

type_synonym observer = "arg list \<Rightarrow> error option"

text \<open>
  A callable of the declared type \<open>Callable[[EnsyState], None]\<close>, such as the bound
  method \<open>EnsyBinarySensor._on_state_change\<close>: it takes exactly one positional
  argument, and Python raises TypeError on any other argument list before the body runs.
\<close>

definition state_observer :: "(EnsyState \<Rightarrow> error option) \<Rightarrow> observer" where
  "state_observer body args = (case args of [AState s] \<Rightarrow> body s | _ \<Rightarrow> Some TypeError)"

datatype tls_context = TlsVerified | TlsInsecure

text \<open>
  The client. The last six fields are the effects on the transport handle
  (\<open>_mqtt_client\<close>) and on the observers.
\<close>

record EnsyClient =
  on_state_updated :: "observer list"
  allow_insecure_tls :: bool
  mac_address :: string
  device_is_online :: bool
  device_is_discovered :: bool
  state_topic_prefix :: string
  apply_state_topic_prefix :: string
  state :: EnsyState
  mqtt_tls :: "tls_context option"
  mqtt_connect_async :: "(string \<times> nat) option"
  mqtt_loop_running :: bool
  subscribed :: "string list"
  published_messages :: "published list"
  observer_calls :: "(nat \<times> arg list) list"

text \<open>\<open>str.lower()\<close> on the ASCII letters (a hardware address has no others).\<close>

definition lower_char :: "char \<Rightarrow> char" where
  "lower_char ch =
     (if 65 \<le> (of_char ch :: nat) \<and> (of_char ch :: nat) \<le> 90
      then char_of ((of_char ch :: nat) + 32) else ch)"

definition normalize_mac :: "string \<Rightarrow> string" where
  "normalize_mac mac = map lower_char (filter (\<lambda>ch. ch \<noteq> CHR '':'') mac)"

definition EnsyClient_init :: "string \<Rightarrow> bool \<Rightarrow> EnsyClient" where
  "EnsyClient_init mac insecure =
     \<lparr>on_state_updated = [],
      allow_insecure_tls = insecure,
      mac_address = normalize_mac mac,
      device_is_online = False,
      device_is_discovered = False,
      state_topic_prefix = ''units/'' @ normalize_mac mac @ ''/unit/'',
      apply_state_topic_prefix = ''units/'' @ normalize_mac mac @ ''/app/'',
      state = EnsyState_default,
      mqtt_tls = None,
      mqtt_connect_async = None,
      mqtt_loop_running = False,
      subscribed = [],
      published_messages = [],
      observer_calls = []\<rparr>"

subsection \<open>Connection\<close>

definition configure_tls :: "EnsyClient \<Rightarrow> EnsyClient" where
  "configure_tls c =
     (if allow_insecure_tls c then c\<lparr>mqtt_tls := Some TlsInsecure\<rparr>
      else c\<lparr>mqtt_tls := Some TlsVerified\<rparr>)"

definition connect :: "EnsyClient \<Rightarrow> EnsyClient" where
  "connect c =
     (let c1 = configure_tls c;
          c2 = c1\<lparr>mqtt_connect_async := Some (API_HOST, API_PORT)\<rparr>
      in c2\<lparr>mqtt_loop_running := True\<rparr>)"

definition stop :: "EnsyClient \<Rightarrow> EnsyClient" where
  "stop c = c\<lparr>mqtt_loop_running := False\<rparr>"

definition subscribe :: "EnsyClient \<Rightarrow> string \<Rightarrow> EnsyClient" where
  "subscribe c t = c\<lparr>subscribed := subscribed c @ [t]\<rparr>"

definition publish :: "EnsyClient \<Rightarrow> string \<Rightarrow> string \<Rightarrow> nat \<Rightarrow> bool \<Rightarrow> EnsyClient" where
  "publish c t p q r =
     c\<lparr>published_messages :=
         published_messages c @ [\<lparr>topic = t, payload = p, qos = q, retain = r\<rparr>]\<rparr>"

text \<open>\<open>publish\<close> with its defaults, \<open>qos=1\<close> and \<open>retain=True\<close>.\<close>

definition publish_default :: "EnsyClient \<Rightarrow> string \<Rightarrow> string \<Rightarrow> EnsyClient" where
  "publish_default c t p = publish c t p 1 True"

subsection \<open>Commands\<close>

definition set_target_temperature :: "EnsyClient \<Rightarrow> int \<Rightarrow> error + EnsyClient" where
  "set_target_temperature c temperature =
     (if \<not> (MIN_TEMPERATURE \<le> temperature \<and> temperature \<le> MAX_TEMPERATURE)
      then Inl ValueError
      else Inr (publish_default c (apply_state_topic_prefix c @ ''temperature'')
                  (py_str temperature)))"

definition apply_state :: "EnsyClient \<Rightarrow> string \<Rightarrow> string \<Rightarrow> EnsyClient" where
  "apply_state c key v = publish_default c (apply_state_topic_prefix c @ key) v"

definition set_preset_mode :: "EnsyClient \<Rightarrow> PresetMode \<Rightarrow> EnsyClient" where
  "set_preset_mode c mode =
     (if Some mode = preset_mode (state c) then c
      else (case mode of
              HOME \<Rightarrow> apply_state (apply_state c ''absent'' ''0'') ''party'' ''2''
            | AWAY \<Rightarrow> apply_state c ''absent'' ''1''
            | BOOST \<Rightarrow> apply_state c ''party'' ''1''))"

definition set_fan_mode :: "EnsyClient \<Rightarrow> FanMode \<Rightarrow> EnsyClient" where
  "set_fan_mode c speed =
     (let c1 = (if preset_mode (state c) \<noteq> Some HOME then set_preset_mode c HOME else c)
      in publish_default c1 (apply_state_topic_prefix c1 @ ''fan'')
           (py_str (FanMode_value speed)))"

subsection \<open>Observers\<close>

text \<open>
  \<open>for callback in self.on_state_updated: callback(*args)\<close>. The loop stops at the first
  observer that raises; the result is the calls made and the exception, if any.
\<close>

fun call_observers ::
  "observer list \<Rightarrow> nat \<Rightarrow> arg list \<Rightarrow> (nat \<times> arg list) list \<times> error option" where
  "call_observers [] i args = ([], None)"
| "call_observers (cb # cbs) i args =
     (case cb args of
        Some e \<Rightarrow> ([(i, args)], Some e)
      | None \<Rightarrow> (let (made, r) = call_observers cbs (Suc i) args in ((i, args) # made, r)))"

definition notify :: "EnsyClient \<Rightarrow> arg list \<Rightarrow> EnsyClient \<times> error option" where
  "notify c args =
     (let (made, r) = call_observers (on_state_updated c) 0 args
      in (c\<lparr>observer_calls := observer_calls c @ made\<rparr>, r))"

subsection \<open>Transport callbacks\<close>

definition on_connect :: "EnsyClient \<Rightarrow> int \<Rightarrow> EnsyClient" where
  "on_connect c rc = (if rc \<noteq> 0 then c else subscribe c (state_topic_prefix c @ ''#''))"

definition on_connect_fail :: "EnsyClient \<Rightarrow> EnsyClient" where
  "on_connect_fail c = c"

text \<open>
  The keys named by the cases of the \<open>match\<close> statement of \<open>_on_message\<close>, in its order.
\<close>

definition decoded_keys :: "string list" where
  "decoded_keys =
     [''temperature'', ''status'', ''fan'', ''party'', ''absent'', ''textr'', ''texauh'',
      ''tsupl'', ''tout'', ''overheating'', ''he'']"

definition set_int_field ::
  "EnsyClient \<Rightarrow> string \<Rightarrow> (int \<Rightarrow> EnsyState \<Rightarrow> EnsyState) \<Rightarrow> error + EnsyClient option" where
  "set_int_field c v upd =
     (case py_int v of Inl e \<Rightarrow> Inl e | Inr n \<Rightarrow> Inr (Some (c\<lparr>state := upd n (state c)\<rparr>)))"

text \<open>
  The \<open>match key\<close> statement: \<open>Inl\<close> when a case raises, \<open>Inr None\<close> when the
  default case returns without notifying, \<open>Inr (Some c')\<close> when a case has run.
\<close>

definition match_key :: "string \<Rightarrow> string \<Rightarrow> EnsyClient \<Rightarrow> error + EnsyClient option" where
  "match_key key v c =
     (if key = ''temperature'' then
        set_int_field c v (\<lambda>n s. s\<lparr>temperature_target := Some n\<rparr>)
      else if key = ''status'' then
        (let c1 = c\<lparr>state := (state c)\<lparr>is_online := (v = ''online'')\<rparr>\<rparr>
         in if is_online (state c1) \<and> \<not> device_is_online c1
            then Inr (Some (c1\<lparr>device_is_online := True\<rparr>))
            else Inr (Some c1))
      else if key = ''fan'' \<and> v \<in> set [''1'', ''2'', ''3''] then
        (case py_int v of
           Inl e \<Rightarrow> Inl e
         | Inr n \<Rightarrow>
             (case FanMode_of n of
                Inl e \<Rightarrow> Inl e
              | Inr m \<Rightarrow> Inr (Some (c\<lparr>state := (state c)\<lparr>fan_mode := Some m\<rparr>\<rparr>))))
      else if key = ''party'' then
        (if v = ''1'' then Inr (Some (c\<lparr>state := (state c)\<lparr>preset_mode := Some BOOST\<rparr>\<rparr>))
         else Inr (Some (c\<lparr>state := (state c)\<lparr>preset_mode := Some HOME\<rparr>\<rparr>)))
      else if key = ''absent'' then
        (if v = ''1'' then Inr (Some (c\<lparr>state := (state c)\<lparr>preset_mode := Some AWAY\<rparr>\<rparr>))
         else Inr (Some (c\<lparr>state := (state c)\<lparr>preset_mode := Some HOME\<rparr>\<rparr>)))
      else if key = ''textr'' then
        set_int_field c v (\<lambda>n s. s\<lparr>temperature_extract := Some n\<rparr>)
      else if key = ''texauh'' then
        set_int_field c v (\<lambda>n s. s\<lparr>temperature_exhaust := Some n\<rparr>)
      else if key = ''tsupl'' then
        set_int_field c v (\<lambda>n s. s\<lparr>temperature_supply := Some n\<rparr>)
      else if key = ''tout'' then
        set_int_field c v (\<lambda>n s. s\<lparr>temperature_outside := Some n\<rparr>)
      else if key = ''overheating'' then
        set_int_field c v (\<lambda>n s. s\<lparr>temperature_heater := Some n\<rparr>)
      else if key = ''he'' then
        Inr (Some (c\<lparr>state := (state c)\<lparr>is_heating := Some (v = ''1'')\<rparr>\<rparr>))
      else Inr None)"

text \<open>
  The two \<open>_propagate\<close> closures. Each is handed to the event loop with
  \<open>call_soon_threadsafe\<close> and runs there later, on the client as it is then; an
  exception it raises ends it where it stands and is kept as the second component.
\<close>

definition propagate_message :: "string \<Rightarrow> string \<Rightarrow> EnsyClient \<Rightarrow> EnsyClient \<times> error option" where
  "propagate_message key v c =
     (let c1 = (if \<not> device_is_discovered c then c\<lparr>device_is_discovered := True\<rparr> else c)
      in case match_key key v c1 of
           Inl e \<Rightarrow> (c1, Some e)
         | Inr None \<Rightarrow> (c1, None)
         | Inr (Some c2) \<Rightarrow> notify c2 [AState (state c2)])"

definition propagate_disconnect :: "EnsyClient \<Rightarrow> EnsyClient \<times> error option" where
  "propagate_disconnect c =
     (let c1 = c\<lparr>device_is_online := False\<rparr>;
          c2 = c1\<lparr>state := (state c1)\<lparr>is_online := False\<rparr>\<rparr>
      in notify c2 [AStr ''status'', AStr ''offline'', AState (state c2)])"

datatype task = MessageTask string string | DisconnectTask

fun run_task :: "task \<Rightarrow> EnsyClient \<Rightarrow> EnsyClient \<times> error option" where
  "run_task (MessageTask key v) c = propagate_message key v c"
| "run_task DisconnectTask c = propagate_disconnect c"

text \<open>
  \<open>_on_message\<close> on the transport's thread: it decodes the payload, reads the topic
  (first for the log line), checks it, and queues a task or nothing. Either of the two
  decodings can raise, and then nothing is queued. It does not touch the client.
\<close>

definition on_message :: "EnsyClient \<Rightarrow> inbound \<Rightarrow> error + task option" where
  "on_message c msg =
     (case decode (payload msg) of
        Inl e \<Rightarrow> Inl e
      | Inr v \<Rightarrow>
          (case topic msg of
             Inl e \<Rightarrow> Inl e
           | Inr t \<Rightarrow>
               if \<not> startswith t (state_topic_prefix c) then Inr None
               else Inr (Some (MessageTask (drop (length (state_topic_prefix c)) t) v))))"

definition on_disconnect :: "EnsyClient \<Rightarrow> task" where
  "on_disconnect c = DisconnectTask"

text \<open>A message arrives and the loop runs what was queued for it.\<close>

definition receive :: "EnsyClient \<Rightarrow> inbound \<Rightarrow> EnsyClient \<times> error option" where
  "receive c msg =
     (case on_message c msg of
        Inl e \<Rightarrow> (c, Some e)
      | Inr None \<Rightarrow> (c, None)
      | Inr (Some t) \<Rightarrow> run_task t c)"

text \<open>The transport drops the connection and the loop runs what was queued for it.\<close>

definition disconnect :: "EnsyClient \<Rightarrow> EnsyClient \<times> error option" where
  "disconnect c = run_task (on_disconnect c) c"

text \<open>
  A state report as the appliance sends it: \<open>key\<close> under this client's inbound prefix,
  a topic that reads back as that text.
\<close>

definition state_message :: "EnsyClient \<Rightarrow> string \<Rightarrow> string \<Rightarrow> inbound" where
  "state_message c key v =
     \<lparr>topic = Inr (state_topic_prefix c @ key), payload = v, qos = 0, retain = False\<rparr>"

text \<open>
  A message as it comes off the wire, from the bytes of its topic and of its payload:
  reading its topic decodes those bytes.
\<close>

definition wire_message :: "string \<Rightarrow> string \<Rightarrow> inbound" where
  "wire_message raw_topic raw_payload =
     \<lparr>topic = decode raw_topic, payload = raw_payload, qos = 0, retain = False\<rparr>"

text \<open>
  Reports received one after the other, each run by the loop before the next arrives.
  The second component lists what each one raised.
\<close>

fun receive_all :: "EnsyClient \<Rightarrow> inbound list \<Rightarrow> EnsyClient \<times> error option list" where
  "receive_all c [] = (c, [])"
| "receive_all c (m # ms) =
     (let (c1, r) = receive c m; (c2, rs) = receive_all c1 ms in (c2, r # rs))"

subsection \<open>Everything that can happen to a client\<close>

datatype event =
    Connect
  | Stop
  | Subscribe string
  | Publish string string nat bool
  | SetTargetTemperature int
  | SetFanMode FanMode
  | ApplyState string string
  | SetPresetMode PresetMode
  | OnConnect int
  | OnConnectFail
  | OnMessage inbound
  | OnDisconnect

text \<open>
  One event. A command that raises leaves the client as it was; a callback that raises
  leaves it as it was when the exception occurred.
\<close>

fun step :: "EnsyClient \<Rightarrow> event \<Rightarrow> EnsyClient" where
  "step c Connect = connect c"
| "step c Stop = stop c"
| "step c (Subscribe t) = subscribe c t"
| "step c (Publish t p q r) = publish c t p q r"
| "step c (SetTargetTemperature n) =
     (case set_target_temperature c n of Inl e \<Rightarrow> c | Inr c1 \<Rightarrow> c1)"
| "step c (SetFanMode m) = set_fan_mode c m"
| "step c (ApplyState k v) = apply_state c k v"
| "step c (SetPresetMode m) = set_preset_mode c m"
| "step c (OnConnect rc) = on_connect c rc"
| "step c OnConnectFail = on_connect_fail c"
| "step c (OnMessage msg) = fst (receive c msg)"
| "step c OnDisconnect = fst (disconnect c)"

section \<open>The command encoder\<close>

lemma py_str_FanMode_value:
  "py_str (FanMode_value m) = (case m of LOW \<Rightarrow> ''1'' | MEDIUM \<Rightarrow> ''2'' | HIGH \<Rightarrow> ''3'')"
  by (cases m) (simp_all add: py_str_def nat_digits.simps digit_char_def)

lemmas command_defs =
  set_fan_mode_def set_preset_mode_def apply_state_def publish_default_def publish_def

text \<open>
  C6. When the known preset is AWAY or BOOST, \<open>set_fan_mode(MEDIUM)\<close> publishes
  \<open>absent=0\<close>, then \<open>party=2\<close>, then \<open>fan=2\<close>, in that order, after whatever was
  published before, and changes nothing else of the client.
\<close>

theorem set_fan_mode_clears_preset:
  assumes "preset_mode (state c) = Some AWAY \<or> preset_mode (state c) = Some BOOST"
  shows "set_fan_mode c MEDIUM =
     c\<lparr>published_messages := published_messages c @
         [\<lparr>topic = apply_state_topic_prefix c @ ''absent'', payload = ''0'',
           qos = 1, retain = True\<rparr>,
          \<lparr>topic = apply_state_topic_prefix c @ ''party'', payload = ''2'',
           qos = 1, retain = True\<rparr>,
          \<lparr>topic = apply_state_topic_prefix c @ ''fan'', payload = ''2'',
           qos = 1, retain = True\<rparr>]\<rparr>"
  using assms by (auto simp: command_defs py_str_def nat_digits.simps digit_char_def)

theorem set_fan_mode_clears_preset_witness:
  "set_fan_mode
     ((EnsyClient_init ''00:00:00:00:00:00'' False)
        \<lparr>state := EnsyState_default\<lparr>preset_mode := Some BOOST\<rparr>\<rparr>) MEDIUM =
   (EnsyClient_init ''00:00:00:00:00:00'' False)
     \<lparr>state := EnsyState_default\<lparr>preset_mode := Some BOOST\<rparr>,
      published_messages :=
        [\<lparr>topic = ''units/000000000000/app/absent'', payload = ''0'', qos = 1, retain = True\<rparr>,
         \<lparr>topic = ''units/000000000000/app/party'', payload = ''2'', qos = 1, retain = True\<rparr>,
         \<lparr>topic = ''units/000000000000/app/fan'', payload = ''2'', qos = 1, retain = True\<rparr>]\<rparr>"
  using set_fan_mode_clears_preset
    [of "(EnsyClient_init ''00:00:00:00:00:00'' False)
           \<lparr>state := EnsyState_default\<lparr>preset_mode := Some BOOST\<rparr>\<rparr>"]
  by (simp add: EnsyClient_init_def EnsyState_default_def normalize_mac_def lower_char_def)

text \<open>
  C7. \<open>set_preset_mode(m)\<close> when the known preset already is \<open>m\<close> returns at once:
  the client is as before, so nothing is published and the device state is unchanged.
\<close>

theorem set_preset_mode_same:
  "preset_mode (state c) = Some m \<Longrightarrow>
     set_preset_mode c m = c
     \<and> published_messages (set_preset_mode c m) = published_messages c
     \<and> state (set_preset_mode c m) = state c"
  by (simp add: set_preset_mode_def)

theorem set_preset_mode_same_witness:
  "published_messages
     (set_preset_mode
        ((EnsyClient_init ''00:00:00:00:00:00'' False)
           \<lparr>state := EnsyState_default\<lparr>preset_mode := Some AWAY\<rparr>\<rparr>) AWAY) = []
   \<and> state
     (set_preset_mode
        ((EnsyClient_init ''00:00:00:00:00:00'' False)
           \<lparr>state := EnsyState_default\<lparr>preset_mode := Some AWAY\<rparr>\<rparr>) AWAY) =
     EnsyState_default\<lparr>preset_mode := Some AWAY\<rparr>"
  using set_preset_mode_same
    [of "(EnsyClient_init ''00:00:00:00:00:00'' False)
           \<lparr>state := EnsyState_default\<lparr>preset_mode := Some AWAY\<rparr>\<rparr>" AWAY]
  by (simp add: EnsyClient_init_def EnsyState_default_def)

text \<open>
  C10. While the preset is still unknown, \<open>set_fan_mode(speed)\<close> publishes
  \<open>absent=0\<close>, then \<open>party=2\<close>, and only then the fan speed; and
  \<open>set_preset_mode(HOME)\<close> publishes \<open>absent=0\<close> and \<open>party=2\<close> rather than
  returning at once.
\<close>

theorem set_fan_mode_unknown_preset:
  assumes "preset_mode (state c) = None"
  shows "set_fan_mode c speed =
     c\<lparr>published_messages := published_messages c @
         [\<lparr>topic = apply_state_topic_prefix c @ ''absent'', payload = ''0'',
           qos = 1, retain = True\<rparr>,
          \<lparr>topic = apply_state_topic_prefix c @ ''party'', payload = ''2'',
           qos = 1, retain = True\<rparr>,
          \<lparr>topic = apply_state_topic_prefix c @ ''fan'',
           payload = (case speed of LOW \<Rightarrow> ''1'' | MEDIUM \<Rightarrow> ''2'' | HIGH \<Rightarrow> ''3''),
           qos = 1, retain = True\<rparr>]\<rparr>
   \<and> set_preset_mode c HOME =
     c\<lparr>published_messages := published_messages c @
         [\<lparr>topic = apply_state_topic_prefix c @ ''absent'', payload = ''0'',
           qos = 1, retain = True\<rparr>,
          \<lparr>topic = apply_state_topic_prefix c @ ''party'', payload = ''2'',
           qos = 1, retain = True\<rparr>]\<rparr>
   \<and> published_messages (set_preset_mode c HOME) \<noteq> published_messages c"
  using assms by (auto simp: command_defs py_str_FanMode_value)

theorem set_fan_mode_unknown_preset_witness:
  "published_messages (set_fan_mode (EnsyClient_init ''00:00:00:00:00:00'' False) HIGH) =
     [\<lparr>topic = ''units/000000000000/app/absent'', payload = ''0'', qos = 1, retain = True\<rparr>,
      \<lparr>topic = ''units/000000000000/app/party'', payload = ''2'', qos = 1, retain = True\<rparr>,
      \<lparr>topic = ''units/000000000000/app/fan'', payload = ''3'', qos = 1, retain = True\<rparr>]
   \<and> published_messages (set_preset_mode (EnsyClient_init ''00:00:00:00:00:00'' False) HOME) =
     [\<lparr>topic = ''units/000000000000/app/absent'', payload = ''0'', qos = 1, retain = True\<rparr>,
      \<lparr>topic = ''units/000000000000/app/party'', payload = ''2'', qos = 1, retain = True\<rparr>]"
  using set_fan_mode_unknown_preset [of "EnsyClient_init ''00:00:00:00:00:00'' False" HIGH]
  by (simp add: EnsyClient_init_def EnsyState_default_def normalize_mac_def lower_char_def)

text \<open>
  C5. \<open>set_target_temperature(value)\<close> raises ValueError, publishing nothing, exactly
  when \<open>value\<close> is below 15 or above 26, so at 14 and at 27. For a value from 15 to 26 it
  appends one message to what was published: topic \<open><prefix>temperature\<close>, payload
  \<open>str(value)\<close> (which \<open>int()\<close> reads back as \<open>value\<close>), qos 1, retained.
\<close>

theorem set_target_temperature_range:
  "(set_target_temperature c t = Inl ValueError \<longleftrightarrow> t < 15 \<or> 26 < t)
   \<and> (15 \<le> t \<and> t \<le> 26 \<longrightarrow>
        set_target_temperature c t =
          Inr (c\<lparr>published_messages := published_messages c @
                 [\<lparr>topic = apply_state_topic_prefix c @ ''temperature'', payload = py_str t,
                   qos = 1, retain = True\<rparr>]\<rparr>)
        \<and> py_int (py_str t) = Inr t)
   \<and> set_target_temperature c 14 = Inl ValueError
   \<and> set_target_temperature c 27 = Inl ValueError"
proof -
  have readback: "py_int (py_str t) = Inr t" if "15 \<le> t" "t \<le> 26"
  proof -
    from that have "t = 15 \<or> t = 16 \<or> t = 17 \<or> t = 18 \<or> t = 19 \<or> t = 20 \<or> t = 21
        \<or> t = 22 \<or> t = 23 \<or> t = 24 \<or> t = 25 \<or> t = 26" by arith
    then show ?thesis
      by (elim disjE)
        (simp_all add: py_str_def nat_digits.simps digit_char_def py_int_def strip_def
          is_space_def is_digit_def)
  qed
  show ?thesis using readback
    by (auto simp: set_target_temperature_def MIN_TEMPERATURE_def MAX_TEMPERATURE_def
        publish_default_def publish_def)
qed

theorem set_target_temperature_range_witness:
  "set_target_temperature (EnsyClient_init ''00:00:00:00:00:00'' False) 20 =
     Inr ((EnsyClient_init ''00:00:00:00:00:00'' False)
            \<lparr>published_messages :=
               [\<lparr>topic = ''units/000000000000/app/temperature'', payload = ''20'',
                 qos = 1, retain = True\<rparr>]\<rparr>)
   \<and> set_target_temperature (EnsyClient_init ''00:00:00:00:00:00'' False) 14 = Inl ValueError
   \<and> set_target_temperature (EnsyClient_init ''00:00:00:00:00:00'' False) 27 = Inl ValueError"
  using set_target_temperature_range [of "EnsyClient_init ''00:00:00:00:00:00'' False" 20]
  by (simp add: EnsyClient_init_def normalize_mac_def lower_char_def py_str_def
      nat_digits.simps digit_char_def)

section \<open>The topic decoder\<close>

subsection \<open>What the handlers leave alone\<close>

lemma startswith_append [simp]: "startswith (p @ k) p"
  by (simp add: startswith_def)

lemma fst_notify:
  "fst (notify c args) =
     c\<lparr>observer_calls := observer_calls c @ fst (call_observers (on_state_updated c) 0 args)\<rparr>"
  by (simp add: notify_def split: prod.splits)

lemma notify_no_observers: "on_state_updated c = [] \<Longrightarrow> notify c args = (c, None)"
  by (simp add: notify_def)

lemma receive_state_message:
  assumes "decode v = Inr w" and "state_topic_prefix c' = state_topic_prefix c"
  shows "receive c' (state_message c k v) = propagate_message k w c'"
  using assms by (simp add: receive_def on_message_def state_message_def)

lemma match_key_frame:
  assumes "match_key k v c = Inr (Some c')"
  shows "on_state_updated c' = on_state_updated c"
    and "state_topic_prefix c' = state_topic_prefix c"
    and "device_is_discovered c' = device_is_discovered c"
    and "observer_calls c' = observer_calls c"
    and "device_is_online c \<Longrightarrow> device_is_online c'"
  using assms
  by (auto simp: match_key_def set_int_field_def Let_def split: if_splits sum.splits)

lemma match_key_unmatched: "key \<notin> set decoded_keys \<Longrightarrow> match_key key v c = Inr None"
  by (simp add: match_key_def decoded_keys_def)

lemma decoded_keys_count: "length decoded_keys = 11 \<and> distinct decoded_keys"
  by (simp add: decoded_keys_def)

lemma propagate_message_frame:
  "state_topic_prefix (fst (propagate_message k v c)) = state_topic_prefix c"
  "device_is_discovered (fst (propagate_message k v c))"
  by (auto simp: propagate_message_def fst_notify Let_def match_key_frame
      split: sum.splits option.splits)

lemma propagate_disconnect_frame:
  "state_topic_prefix (fst (propagate_disconnect c)) = state_topic_prefix c"
  "device_is_discovered (fst (propagate_disconnect c)) = device_is_discovered c"
  "\<not> device_is_online (fst (propagate_disconnect c))"
  "\<not> is_online (state (fst (propagate_disconnect c)))"
  by (simp_all add: propagate_disconnect_def fst_notify Let_def)

text \<open>
  A disconnect clears the online latch and \<open>is_online\<close> and keeps the discovered latch,
  whatever the observers do.
\<close>

lemma disconnect_effects:
  "\<not> device_is_online (fst (disconnect c))"
  "\<not> is_online (state (fst (disconnect c)))"
  "device_is_discovered (fst (disconnect c)) = device_is_discovered c"
  by (simp_all add: disconnect_def on_disconnect_def propagate_disconnect_frame)

lemma run_task_prefix [simp]:
  "state_topic_prefix (fst (run_task t c)) = state_topic_prefix c"
  by (cases t) (simp_all add: propagate_message_frame propagate_disconnect_frame)

lemma run_task_discovered:
  "device_is_discovered c \<Longrightarrow> device_is_discovered (fst (run_task t c))"
  by (cases t) (simp_all add: propagate_message_frame propagate_disconnect_frame)

lemma receive_prefix [simp]:
  "state_topic_prefix (fst (receive c msg)) = state_topic_prefix c"
  by (simp add: receive_def split: sum.splits option.splits)

lemma receive_discovered:
  "device_is_discovered c \<Longrightarrow> device_is_discovered (fst (receive c msg))"
  by (simp add: receive_def run_task_discovered split: sum.splits option.splits)

lemma fst_receive_all_Cons:
  "fst (receive_all c (m # ms)) = fst (receive_all (fst (receive c m)) ms)"
  by (simp split: prod.splits)

lemma fst_receive_all_snoc:
  "fst (receive_all c (ms @ [m])) = fst (receive (fst (receive_all c ms)) m)"
proof (induction ms arbitrary: c)
  case Nil
  show ?case by (simp split: prod.splits)
next
  case (Cons a ms)
  have "fst (receive_all c ((a # ms) @ [m])) = fst (receive_all (fst (receive c a)) (ms @ [m]))"
    by (simp only: append_Cons fst_receive_all_Cons)
  also have "\<dots> = fst (receive (fst (receive_all (fst (receive c a)) ms)) m)"
    by (rule Cons.IH)
  also have "\<dots> = fst (receive (fst (receive_all c (a # ms))) m)"
    by (simp only: fst_receive_all_Cons)
  finally show ?case .
qed

lemma receive_all_prefix [simp]:
  "state_topic_prefix (fst (receive_all c ms)) = state_topic_prefix c"
proof (induction ms arbitrary: c)
  case Nil
  show ?case by simp
next
  case (Cons a ms)
  show ?case by (simp only: fst_receive_all_Cons Cons.IH receive_prefix)
qed

lemma step_discovered:
  "device_is_discovered c \<Longrightarrow> device_is_discovered (step c ev)"
  by (cases ev)
    (simp_all add: connect_def configure_tls_def stop_def subscribe_def
      set_target_temperature_def command_defs on_connect_def on_connect_fail_def
      receive_discovered disconnect_effects Let_def split: PresetMode.splits)

lemma steps_discovered:
  "device_is_discovered c \<Longrightarrow> device_is_discovered (foldl step c evs)"
  by (induction evs arbitrary: c) (simp_all add: step_discovered)

lemma step_prefix: "state_topic_prefix (step c ev) = state_topic_prefix c"
  by (cases ev)
    (simp_all add: connect_def configure_tls_def stop_def subscribe_def
      set_target_temperature_def command_defs on_connect_def on_connect_fail_def
      disconnect_def Let_def split: PresetMode.splits)

lemma receive_discovered_iff:
  "device_is_discovered (fst (receive c m)) \<longleftrightarrow>
     device_is_discovered c
     \<or> (\<exists>u v. decode (payload m) = Inr v \<and> topic m = Inr u
           \<and> startswith u (state_topic_prefix c))"
  by (auto simp: receive_def on_message_def propagate_message_frame split: sum.splits)

lemma step_discovered_iff:
  "device_is_discovered (step c ev) \<longleftrightarrow>
     device_is_discovered c
     \<or> (\<exists>m u v. ev = OnMessage m \<and> decode (payload m) = Inr v \<and> topic m = Inr u
           \<and> startswith u (state_topic_prefix c))"
proof (cases ev)
  case (OnMessage m)
  then show ?thesis using receive_discovered_iff [of c m] by auto
qed (simp_all add: connect_def configure_tls_def stop_def subscribe_def
      set_target_temperature_def command_defs on_connect_def on_connect_fail_def
      disconnect_effects Let_def split: PresetMode.splits)

lemma decode_ascii:
  "decode ''online'' = Inr ''online''" "decode ''0'' = Inr ''0''" "decode ''1'' = Inr ''1''"
  "decode ''2'' = Inr ''2''" "decode ''18'' = Inr ''18''" "decode ''19'' = Inr ''19''"
  "decode ''20'' = Inr ''20''" "decode ''21'' = Inr ''21''" "decode ''22'' = Inr ''22''"
  by (simp_all add: decode_def)

lemma py_int_small:
  "py_int ''2'' = Inr 2" "py_int ''18'' = Inr 18" "py_int ''19'' = Inr 19"
  "py_int ''20'' = Inr 20" "py_int ''21'' = Inr 21" "py_int ''22'' = Inr 22"
  by (simp_all add: py_int_def strip_def is_space_def is_digit_def)

subsection \<open>Decoding\<close>

text \<open>
  C3. A new client, whatever its address, that receives \<open>status=online\<close>, \<open>fan=2\<close>,
  \<open>party=0\<close>, \<open>absent=0\<close>, \<open>textr=18\<close>, \<open>texauh=19\<close>, \<open>tsupl=20\<close>, \<open>tout=21\<close>,
  \<open>overheating=22\<close>, \<open>he=1\<close> in this order raises nothing and ends with
  \<open>is_online\<close> true, fan MEDIUM, preset HOME, extract 18, exhaust 19, supply 20,
  outside 21, heater 22, \<open>is_heating\<close> true, the target temperature still unknown, and
  both latches set.
\<close>

theorem parse_state_scenario:
  "receive_all (EnsyClient_init mac insecure)
     (map (\<lambda>(key, v). state_message (EnsyClient_init mac insecure) key v)
        [(''status'', ''online''), (''fan'', ''2''), (''party'', ''0''), (''absent'', ''0''),
         (''textr'', ''18''), (''texauh'', ''19''), (''tsupl'', ''20''), (''tout'', ''21''),
         (''overheating'', ''22''), (''he'', ''1'')]) =
   ((EnsyClient_init mac insecure)
      \<lparr>device_is_online := True, device_is_discovered := True,
       state :=
         \<lparr>is_heating = Some True, is_online = True, fan_mode = Some MEDIUM,
          preset_mode = Some HOME, temperature_exhaust = Some 19,
          temperature_extract = Some 18, temperature_heater = Some 22,
          temperature_outside = Some 21, temperature_supply = Some 20,
          temperature_target = None\<rparr>\<rparr>,
    replicate 10 None)"
  by (simp add: receive_state_message decode_ascii propagate_message_def match_key_def
      set_int_field_def py_int_small FanMode_of_def notify_no_observers EnsyClient_init_def
      EnsyState_default_def numeral_eq_Suc)

text \<open>
  C4. Whatever was received before, a \<open>party\<close> report leaves the preset at BOOST when
  its decoded payload is \<open>"1"\<close> and at HOME otherwise, and an \<open>absent\<close> report leaves
  it at AWAY when its decoded payload is \<open>"1"\<close> and at HOME otherwise: the latest of
  the two flags alone decides the preset.
\<close>

theorem preset_follows_latest_flag:
  assumes "decode p = Inr w"
  shows "preset_mode (state (fst (receive_all c (ms @ [state_message c ''party'' p])))) =
           Some (if w = ''1'' then BOOST else HOME)
       \<and> preset_mode (state (fst (receive_all c (ms @ [state_message c ''absent'' p])))) =
           Some (if w = ''1'' then AWAY else HOME)"
  using assms
  by (simp add: fst_receive_all_snoc receive_state_message propagate_message_def match_key_def
      fst_notify Let_def)

theorem preset_follows_latest_flag_witness:
  "preset_mode (state (fst (receive_all (EnsyClient_init ''00:00:00:00:00:00'' False)
      (map (\<lambda>(k, v). state_message (EnsyClient_init ''00:00:00:00:00:00'' False) k v)
         [(''absent'', ''1''), (''party'', ''1'')])))) = Some BOOST
   \<and> preset_mode (state (fst (receive_all (EnsyClient_init ''00:00:00:00:00:00'' False)
      (map (\<lambda>(k, v). state_message (EnsyClient_init ''00:00:00:00:00:00'' False) k v)
         [(''absent'', ''1''), (''absent'', ''1'')])))) = Some AWAY
   \<and> preset_mode (state (fst (receive_all (EnsyClient_init ''00:00:00:00:00:00'' False)
      (map (\<lambda>(k, v). state_message (EnsyClient_init ''00:00:00:00:00:00'' False) k v)
         [(''party'', ''1''), (''party'', ''2'')])))) = Some HOME
   \<and> preset_mode (state (fst (receive_all (EnsyClient_init ''00:00:00:00:00:00'' False)
      (map (\<lambda>(k, v). state_message (EnsyClient_init ''00:00:00:00:00:00'' False) k v)
         [(''party'', ''1''), (''absent'', ''2'')])))) = Some HOME"
  using preset_follows_latest_flag [where p = "''1''" and w = "''1''"
      and c = "EnsyClient_init ''00:00:00:00:00:00'' False"
      and ms = "map (\<lambda>(k, v). state_message (EnsyClient_init ''00:00:00:00:00:00'' False) k v)
         [(''absent'', ''1'')]"]
    preset_follows_latest_flag [where p = "''2''" and w = "''2''"
      and c = "EnsyClient_init ''00:00:00:00:00:00'' False"
      and ms = "map (\<lambda>(k, v). state_message (EnsyClient_init ''00:00:00:00:00:00'' False) k v)
         [(''party'', ''1'')]"]
  by (simp add: decode_def)

text \<open>
  C8. A message whose topic does not start with this client's inbound prefix (or cannot
  be read at all), and a message under the prefix whose key is none of the decoded keys,
  change no field of the device state and call no observer.
\<close>

theorem unmatched_message_ignored:
  assumes "case topic msg of
             Inl e \<Rightarrow> True
           | Inr t \<Rightarrow>
               \<not> startswith t (state_topic_prefix c)
               \<or> (startswith t (state_topic_prefix c)
                  \<and> drop (length (state_topic_prefix c)) t \<notin> set decoded_keys)"
  shows "state (fst (receive c msg)) = state c
     \<and> observer_calls (fst (receive c msg)) = observer_calls c"
  using assms
  by (auto simp: receive_def on_message_def propagate_message_def match_key_unmatched
      split: sum.splits)

theorem unmatched_message_ignored_witness:
  "state (fst (receive
      ((EnsyClient_init ''00:00:00:00:00:00'' False)
         \<lparr>on_state_updated := [state_observer (\<lambda>s. None)]\<rparr>)
      \<lparr>topic = Inr ''unknown'', payload = ''whatever'', qos = 0, retain = False\<rparr>)) =
     EnsyState_default
   \<and> observer_calls (fst (receive
      ((EnsyClient_init ''00:00:00:00:00:00'' False)
         \<lparr>on_state_updated := [state_observer (\<lambda>s. None)]\<rparr>)
      \<lparr>topic = Inr ''unknown'', payload = ''whatever'', qos = 0, retain = False\<rparr>)) = []
   \<and> state (fst (receive
      ((EnsyClient_init ''00:00:00:00:00:00'' False)
         \<lparr>on_state_updated := [state_observer (\<lambda>s. None)]\<rparr>)
      \<lparr>topic = Inr ''units/000000000000/unit/rm'', payload = ''1'', qos = 0, retain = False\<rparr>)) =
     EnsyState_default
   \<and> observer_calls (fst (receive
      ((EnsyClient_init ''00:00:00:00:00:00'' False)
         \<lparr>on_state_updated := [state_observer (\<lambda>s. None)]\<rparr>)
      \<lparr>topic = Inr ''units/000000000000/unit/rm'', payload = ''1'', qos = 0, retain = False\<rparr>)) = []
   \<and> state (fst (receive
      ((EnsyClient_init ''00:00:00:00:00:00'' False)
         \<lparr>on_state_updated := [state_observer (\<lambda>s. None)]\<rparr>)
      (wire_message (''units/000000000000/unit/he'' @ [CHR 0xFF]) ''1''))) =
     EnsyState_default
   \<and> observer_calls (fst (receive
      ((EnsyClient_init ''00:00:00:00:00:00'' False)
         \<lparr>on_state_updated := [state_observer (\<lambda>s. None)]\<rparr>)
      (wire_message (''units/000000000000/unit/he'' @ [CHR 0xFF]) ''1''))) = []"
  using unmatched_message_ignored
    [where msg = "\<lparr>topic = Inr ''unknown'', payload = ''whatever'', qos = 0, retain = False\<rparr>"
       and c = "(EnsyClient_init ''00:00:00:00:00:00'' False)
           \<lparr>on_state_updated := [state_observer (\<lambda>s. None)]\<rparr>"]
    unmatched_message_ignored
    [where msg = "\<lparr>topic = Inr ''units/000000000000/unit/rm'', payload = ''1'',
                   qos = 0, retain = False\<rparr>"
       and c = "(EnsyClient_init ''00:00:00:00:00:00'' False)
           \<lparr>on_state_updated := [state_observer (\<lambda>s. None)]\<rparr>"]
    unmatched_message_ignored
    [where msg = "wire_message (''units/000000000000/unit/he'' @ [CHR 0xFF]) ''1''"
       and c = "(EnsyClient_init ''00:00:00:00:00:00'' False)
           \<lparr>on_state_updated := [state_observer (\<lambda>s. None)]\<rparr>"]
  by (simp add: EnsyClient_init_def normalize_mac_def lower_char_def startswith_def
      decoded_keys_def wire_message_def decode_def)

section \<open>The readiness latches\<close>

text \<open>
  C9. A message that decodes and whose topic starts with this client's inbound prefix
  sets the discovered latch, whatever its key, and the latch stays set through every
  later sequence of messages, disconnects and other operations of the client. Nothing
  else sets it: a message whose payload or topic does not decode, or whose topic lacks
  the prefix, leaves the client as it was, and after any sequence of events the latch is
  set exactly when it was set before or one of the messages received was such a message.
\<close>

theorem discovered_latch_permanent:
  "(topic msg = Inr t \<and> startswith t (state_topic_prefix c) \<and> decode (payload msg) = Inr w
      \<longrightarrow> device_is_discovered (foldl step (fst (receive c msg)) evs))
   \<and> ((\<exists>e. decode (payload msg) = Inl e) \<or> (\<exists>e. topic msg = Inl e)
       \<or> (\<exists>u. topic msg = Inr u \<and> \<not> startswith u (state_topic_prefix c))
      \<longrightarrow> fst (receive c msg) = c)
   \<and> (device_is_discovered (foldl step c evs) \<longleftrightarrow>
        device_is_discovered c
        \<or> (\<exists>m u v. OnMessage m \<in> set evs \<and> decode (payload m) = Inr v \<and> topic m = Inr u
              \<and> startswith u (state_topic_prefix c)))"
proof (intro conjI impI)
  assume "topic msg = Inr t \<and> startswith t (state_topic_prefix c)
    \<and> decode (payload msg) = Inr w"
  then have "device_is_discovered (fst (receive c msg))"
    by (simp add: receive_def on_message_def propagate_message_frame)
  then show "device_is_discovered (foldl step (fst (receive c msg)) evs)"
    by (rule steps_discovered)
next
  assume "(\<exists>e. decode (payload msg) = Inl e) \<or> (\<exists>e. topic msg = Inl e)
    \<or> (\<exists>u. topic msg = Inr u \<and> \<not> startswith u (state_topic_prefix c))"
  then show "fst (receive c msg) = c"
    by (auto simp: receive_def on_message_def split: sum.splits)
next
  show "device_is_discovered (foldl step c evs) \<longleftrightarrow>
        device_is_discovered c
        \<or> (\<exists>m u v. OnMessage m \<in> set evs \<and> decode (payload m) = Inr v \<and> topic m = Inr u
              \<and> startswith u (state_topic_prefix c))"
  proof (induction evs arbitrary: c)
    case Nil
    show ?case by simp
  next
    case (Cons ev evs)
    have "device_is_discovered (foldl step c (ev # evs)) \<longleftrightarrow>
        device_is_discovered (step c ev)
        \<or> (\<exists>m u v. OnMessage m \<in> set evs \<and> decode (payload m) = Inr v \<and> topic m = Inr u
              \<and> startswith u (state_topic_prefix c))"
      using Cons.IH [of "step c ev"] by (simp add: step_prefix)
    also have "device_is_discovered (step c ev) \<longleftrightarrow>
        device_is_discovered c
        \<or> (\<exists>m u v. ev = OnMessage m \<and> decode (payload m) = Inr v \<and> topic m = Inr u
              \<and> startswith u (state_topic_prefix c))"
      by (rule step_discovered_iff)
    finally show ?case by auto
  qed
qed

theorem discovered_latch_permanent_witness:
  "\<not> device_is_discovered (EnsyClient_init ''00:00:00:00:00:00'' False)
   \<and> device_is_discovered
     (foldl step
        (fst (receive (EnsyClient_init ''00:00:00:00:00:00'' False)
           \<lparr>topic = Inr ''units/000000000000/unit/rm'', payload = ''1'', qos = 0, retain = False\<rparr>))
        [OnDisconnect,
         OnMessage \<lparr>topic = Inr ''units/000000000000/unit/status'', payload = ''offline'',
                    qos = 0, retain = False\<rparr>,
         SetFanMode LOW, Stop])
   \<and> fst (receive (EnsyClient_init ''00:00:00:00:00:00'' False)
        \<lparr>topic = Inr ''units/ffffffffffff/unit/status'', payload = ''online'',
         qos = 0, retain = False\<rparr>) =
     EnsyClient_init ''00:00:00:00:00:00'' False
   \<and> \<not> device_is_discovered
     (foldl step (EnsyClient_init ''00:00:00:00:00:00'' False)
        [OnConnect 0,
         OnMessage \<lparr>topic = Inr ''units/ffffffffffff/unit/status'', payload = ''online'',
                    qos = 0, retain = False\<rparr>,
         OnMessage (wire_message (''units/000000000000/unit/status'' @ [CHR 0xFF]) ''online''),
         OnMessage \<lparr>topic = Inr ''units/000000000000/unit/status'', payload = [CHR 0xFF],
                    qos = 0, retain = False\<rparr>,
         SetFanMode LOW, OnDisconnect])"
proof -
  let ?c = "EnsyClient_init ''00:00:00:00:00:00'' False"
  let ?rm = "\<lparr>topic = Inr ''units/000000000000/unit/rm'', payload = ''1'',
               qos = 0, retain = False\<rparr> :: inbound"
  let ?other = "\<lparr>topic = Inr ''units/ffffffffffff/unit/status'', payload = ''online'',
               qos = 0, retain = False\<rparr> :: inbound"
  have pre: "state_topic_prefix ?c = ''units/000000000000/unit/''"
    by (simp add: EnsyClient_init_def normalize_mac_def lower_char_def)
  have new: "\<not> device_is_discovered ?c"
    by (simp add: EnsyClient_init_def)
  have stays: "device_is_discovered
     (foldl step (fst (receive ?c ?rm))
        [OnDisconnect,
         OnMessage \<lparr>topic = Inr ''units/000000000000/unit/status'', payload = ''offline'',
                    qos = 0, retain = False\<rparr>,
         SetFanMode LOW, Stop])"
    using discovered_latch_permanent
      [where msg = ?rm and t = "''units/000000000000/unit/rm''" and c = ?c and w = "''1''"
         and evs = "[OnDisconnect,
           OnMessage \<lparr>topic = Inr ''units/000000000000/unit/status'', payload = ''offline'',
                      qos = 0, retain = False\<rparr>,
           SetFanMode LOW, Stop]"]
    by (simp add: pre startswith_def decode_def)
  have ignored: "fst (receive ?c ?other) = ?c"
    using discovered_latch_permanent [where msg = ?other and c = ?c and evs = "[]"]
    by (simp add: pre startswith_def)
  have never: "\<not> device_is_discovered
     (foldl step ?c
        [OnConnect 0, OnMessage ?other,
         OnMessage (wire_message (''units/000000000000/unit/status'' @ [CHR 0xFF]) ''online''),
         OnMessage \<lparr>topic = Inr ''units/000000000000/unit/status'', payload = [CHR 0xFF],
                    qos = 0, retain = False\<rparr>,
         SetFanMode LOW, OnDisconnect])"
    using new discovered_latch_permanent
      [where c = ?c and msg = ?other
         and evs = "[OnConnect 0, OnMessage ?other,
           OnMessage
             (wire_message (''units/000000000000/unit/status'' @ [CHR 0xFF]) ''online''),
           OnMessage \<lparr>topic = Inr ''units/000000000000/unit/status'', payload = [CHR 0xFF],
                      qos = 0, retain = False\<rparr>,
           SetFanMode LOW, OnDisconnect]"]
    by (auto simp: pre startswith_def decode_def wire_message_def)
  from new stays ignored never show ?thesis by simp
qed

text \<open>
  C1. The online latch is to be set by \<open>status=online\<close> and cleared by a disconnect or
  by any other status. Here a new client receives \<open>status=online\<close> and then
  \<open>status=offline\<close>: the first sets the latch, and after the second \<open>is_online\<close> is
  false while the latch is still set.
\<close>

theorem status_offline_keeps_online_latch:
  "device_is_online
     (fst (receive (EnsyClient_init ''00:00:00:00:00:00'' False)
        \<lparr>topic = Inr ''units/000000000000/unit/status'', payload = ''online'',
         qos = 0, retain = False\<rparr>))
   \<and> device_is_online
     (fst (receive
        (fst (receive (EnsyClient_init ''00:00:00:00:00:00'' False)
           \<lparr>topic = Inr ''units/000000000000/unit/status'', payload = ''online'',
            qos = 0, retain = False\<rparr>))
        \<lparr>topic = Inr ''units/000000000000/unit/status'', payload = ''offline'',
         qos = 0, retain = False\<rparr>))
   \<and> is_online (state
     (fst (receive
        (fst (receive (EnsyClient_init ''00:00:00:00:00:00'' False)
           \<lparr>topic = Inr ''units/000000000000/unit/status'', payload = ''online'',
            qos = 0, retain = False\<rparr>))
        \<lparr>topic = Inr ''units/000000000000/unit/status'', payload = ''offline'',
         qos = 0, retain = False\<rparr>))) = False"
  by (simp add: receive_def on_message_def decode_def startswith_def propagate_message_def
      match_key_def notify_def EnsyClient_init_def EnsyState_default_def normalize_mac_def
      lower_char_def Let_def)

text \<open>
  C2. On a disconnect every observer is to be called with the device state. Here a client
  with two observers of the declared type receives \<open>status=online\<close>, which calls both
  with the state, and is then disconnected: the latch and \<open>is_online\<close> are cleared, the
  first observer is called with the three arguments \<open>"status"\<close>, \<open>"offline"\<close> and the state,
  that call raises TypeError, and the second observer is not called.
\<close>

theorem disconnect_passes_three_arguments:
  "disconnect
     (fst (receive
        ((EnsyClient_init ''00:00:00:00:00:00'' False)
           \<lparr>on_state_updated := [state_observer (\<lambda>s. None), state_observer (\<lambda>s. None)]\<rparr>)
        \<lparr>topic = Inr ''units/000000000000/unit/status'', payload = ''online'',
         qos = 0, retain = False\<rparr>)) =
   ((EnsyClient_init ''00:00:00:00:00:00'' False)
      \<lparr>on_state_updated := [state_observer (\<lambda>s. None), state_observer (\<lambda>s. None)],
       device_is_online := False,
       device_is_discovered := True,
       state := EnsyState_default\<lparr>is_online := False\<rparr>,
       observer_calls :=
         [(0, [AState (EnsyState_default\<lparr>is_online := True\<rparr>)]),
          (1, [AState (EnsyState_default\<lparr>is_online := True\<rparr>)]),
          (0, [AStr ''status'', AStr ''offline'',
               AState (EnsyState_default\<lparr>is_online := False\<rparr>)])]\<rparr>,
    Some TypeError)"
  by (simp add: disconnect_def on_disconnect_def propagate_disconnect_def notify_def
      state_observer_def receive_def on_message_def decode_def startswith_def
      propagate_message_def match_key_def EnsyClient_init_def EnsyState_default_def
      normalize_mac_def lower_char_def Let_def)

end
